theory Spec2Isabelle
  imports Main "HOL-Library.Word"
begin

section \<open>Buffers and the combination of stdout chunks\<close>

text \<open>
  A Node \<open>Buffer\<close> is a sequence of bytes. \<open>Buffer.alloc\<close> zero-fills,
  \<open>Buffer.allocUnsafe\<close> returns memory with arbitrary contents: the contents are read
  from a parameter \<open>mem\<close>, about which nothing is assumed.
\<close>

type_synonym byte = "8 word"
type_synonym buffer = "byte list"

definition Buffer_alloc :: "nat \<Rightarrow> buffer" where
  "Buffer_alloc n = replicate n 0"

definition Buffer_allocUnsafe :: "(nat \<Rightarrow> byte) \<Rightarrow> nat \<Rightarrow> buffer" where
  "Buffer_allocUnsafe mem n = map mem [0..<n]"

text \<open>
  \<open>chunk.copy(target, targetStart)\<close> writes the bytes of \<open>chunk\<close> into \<open>target\<close> from
  index \<open>targetStart\<close> on, as many as fit. A start index beyond the end of the target is
  an error in some versions of Node and copies nothing in others; the model takes the
  strict reading and returns \<open>None\<close> there.
\<close>

definition Buffer_copy :: "buffer \<Rightarrow> buffer \<Rightarrow> nat \<Rightarrow> buffer option" where
  "Buffer_copy chunk target targetStart =
     (if length target < targetStart then None
      else Some (take targetStart target
                 @ take (length target - targetStart) chunk
                 @ drop (targetStart + length chunk) target))"

text \<open>The \<open>for (const chunk of stdoutChunks)\<close> loop, with its running \<open>offset\<close>.\<close>

fun copyChunks :: "buffer list \<Rightarrow> buffer \<Rightarrow> nat \<Rightarrow> buffer option" where
  "copyChunks [] combined offset = Some combined"
| "copyChunks (chunk # rest) combined offset =
     (case Buffer_copy chunk combined offset of
        None \<Rightarrow> None
      | Some combined' \<Rightarrow> copyChunks rest combined' (offset + length chunk))"

text \<open>The three cases at the head of the \<open>close\<close> handler of \<open>generateLocalImage\<close>.\<close>

definition combineChunks :: "(nat \<Rightarrow> byte) \<Rightarrow> buffer list \<Rightarrow> buffer option" where
  "combineChunks mem stdoutChunks =
     (if length stdoutChunks = 0 then Some (Buffer_alloc 0)
      else if length stdoutChunks = 1 then Some (stdoutChunks ! 0)
      else
        let totalLength = foldl (\<lambda>sum chunk. sum + length chunk) 0 stdoutChunks;
            combined = Buffer_allocUnsafe mem totalLength
        in copyChunks stdoutChunks combined 0)"

text \<open>The reference the combination is compared with: \<open>Buffer.concat(list)\<close>.\<close>

definition Buffer_concat :: "buffer list \<Rightarrow> buffer" where
  "Buffer_concat chunks = concat chunks"

section \<open>Strings and values of the host language\<close>

text \<open>
  A string is a list of code units; a \<open>char\<close> stands for a code unit below 256. Values
  held by the cache or handed to the presentation helpers are strings, numbers or
  \<open>null\<close>; \<open>truthy\<close> is the test that \<open>if (item)\<close> and \<open>a || b\<close> apply.
\<close>

datatype jsval = JNull | JStr string | JNum int

fun truthy :: "jsval \<Rightarrow> bool" where
  "truthy JNull = False"
| "truthy (JStr s) = (s \<noteq> [])"
| "truthy (JNum n) = (n \<noteq> 0)"

text \<open>\<open>a || b\<close> on strings: the empty string is the only falsy one.\<close>

definition orElse :: "string \<Rightarrow> string \<Rightarrow> string" where
  "orElse a b = (if a \<noteq> [] then a else b)"

text \<open>\<open>s[0] === c\<close>: indexing the empty string gives \<open>undefined\<close>, equal to no character.\<close>

definition firstCharIs :: "string \<Rightarrow> char \<Rightarrow> bool" where
  "firstCharIs s c = (case s of [] \<Rightarrow> False | x # _ \<Rightarrow> x = c)"

definition slice :: "nat \<Rightarrow> string \<Rightarrow> string" where
  "slice n s = drop n s"

definition endsWith :: "string \<Rightarrow> string \<Rightarrow> bool" where
  "endsWith s suf = (length suf \<le> length s \<and> drop (length s - length suf) s = suf)"

text \<open>The white space that \<open>String.prototype.trim\<close> removes, among code units below 256.\<close>

definition isWhiteSpace :: "char \<Rightarrow> bool" where
  "isWhiteSpace c = (c \<in> {CHR 0x09, CHR 0x0A, CHR 0x0B, CHR 0x0C, CHR 0x0D, CHR 0x20, CHR 0xA0})"

definition trim :: "string \<Rightarrow> string" where
  "trim s = rev (dropWhile isWhiteSpace (rev (dropWhile isWhiteSpace s)))"

text \<open>Decimal rendering of a number inside a template literal; \<open>null\<close> prints as \<open>null\<close>.\<close>

fun showNat :: "nat \<Rightarrow> string" where
  "showNat n = (if n < 10 then [char_of (48 + n)]
                else showNat (n div 10) @ [char_of (48 + n mod 10)])"

definition showInt :: "int \<Rightarrow> string" where
  "showInt i = (if i < 0 then CHR ''-'' # showNat (nat (- i)) else showNat (nat i))"

definition showCode :: "int option \<Rightarrow> string" where
  "showCode code = (case code of None \<Rightarrow> ''null'' | Some i \<Rightarrow> showInt i)"

section \<open>Collaborators\<close>

text \<open>
  \<open>OutputType\<close> is declared in \<open>const.ts\<close>; only its three members are used here, and
  the text each contributes to the \<open>-t\<close> flag is a parameter (\<open>outputTypeText\<close>).
\<close>

datatype OutputType = ASCII | PNG | SVG

datatype encoding = Base64 | Utf8 | Binary

text \<open>
  Library functions the processor calls, fixed for the life of the program:
  \<open>path.isAbsolute\<close>, \<open>path.resolve\<close> with two arguments, \<open>plantuml.encode\<close>,
  \<open>Buffer.toString(encoding)\<close> and the string value of an \<open>OutputType\<close>.
\<close>

record platform =
  isAbsolute :: "string \<Rightarrow> bool"
  resolve :: "string \<Rightarrow> string \<Rightarrow> string"
  plantuml_encode :: "string \<Rightarrow> string"
  toString :: "encoding \<Rightarrow> buffer \<Rightarrow> string"
  outputTypeText :: "OutputType \<Rightarrow> string"

text \<open>Events a child process emits; \<open>close\<close> carries the exit code, \<open>null\<close> after a signal.\<close>

datatype proc_event =
    StdoutData buffer
  | StderrData buffer
  | ErrorEvent string
  | CloseEvent "int option"

text \<open>
  What may differ from one render call to the next: the plugin settings
  (\<open>localJar\<close>, \<open>dotPath\<close>, \<open>javaPath\<close>), the user's home directory, the replacer's
  \<open>getFullPath("")\<close> and \<open>getPath(ctx)\<close>, the events the spawned process emits (given
  command, arguments, working directory and standard input), the contents of
  uninitialised memory and the clock read by \<open>Date.now()\<close>.
\<close>

type_synonym ctx = string
type_synonym element = nat

record config =
  localJar :: string
  dotPath :: "string option"
  javaPath :: string
  homedir :: string
  fullPath :: string
  getPath :: "ctx \<Rightarrow> string"
  renderer :: "string \<Rightarrow> string list \<Rightarrow> string \<Rightarrow> string \<Rightarrow> proc_event list"
  heap :: "nat \<Rightarrow> byte"
  dateNow :: int

datatype error = ConfigurationError string | LaunchError string | RenderError string

datatype 'a promise = Pending | Rejected error | Resolved 'a

section \<open>Resolving the renderer command\<close>

text \<open>Lines 206 to 224: the full path of the configured executable.\<close>

definition jarFullPath :: "platform \<Rightarrow> config \<Rightarrow> string" where
  "jarFullPath pf cfg =
     (let jarFromSettings = localJar cfg;
          path = fullPath cfg
      in if firstCharIs jarFromSettings CHR ''~'' then homedir cfg @ slice 1 jarFromSettings
         else if isAbsolute pf jarFromSettings then jarFromSettings
         else resolve pf path jarFromSettings)"

text \<open>Lines 231 to 248: the options of the renderer itself.\<close>

definition plantumlArgs :: "config \<Rightarrow> string list" where
  "plantumlArgs cfg =
     [''-charset'', ''utf-8'']
     @ (case dotPath cfg of
          None \<Rightarrow> []
        | Some d \<Rightarrow> if d \<noteq> [] \<and> trim d \<noteq> [] \<and> d \<noteq> ''dot''
                    then [''-graphvizdot'', d] else [])"

definition resolveLocalJarCmd :: "platform \<Rightarrow> config \<Rightarrow> error + string list" where
  "resolveLocalJarCmd pf cfg =
     (let jar = jarFullPath pf cfg
      in if length jar = 0 then Inl (ConfigurationError ''Invalid local jar file'')
         else if endsWith jar ''.jar''
              then Inr ([javaPath cfg, ''-Djava.awt.headless=true'', ''-jar'', jar]
                        @ plantumlArgs cfg)
              else Inr ([jar, ''-Djava.awt.headless=true''] @ plantumlArgs cfg))"

section \<open>The world a render call acts on\<close>

text \<open>
  The cache is \<open>localforage\<close>: a map from keys to values, \<open>getItem\<close> answering \<open>null\<close>
  for a key that is not there. Every effect of a call is appended to a log in the order
  in which it happens. Cache operations are taken to succeed.
\<close>

datatype effect =
    GetItem string
  | SetItem string jsval
  | Spawn string "string list" string
  | StdinWrite string
  | InsertAscii element jsval
  | InsertSvg element jsval
  | InsertImageWithMap element jsval jsval string

record world =
  cache :: "string \<rightharpoonup> jsval"
  log :: "effect list"

definition emit :: "effect \<Rightarrow> world \<Rightarrow> world" where
  "emit e w = w\<lparr>log := log w @ [e]\<rparr>"

definition getItem :: "string \<Rightarrow> world \<Rightarrow> jsval \<times> world" where
  "getItem key w = ((case cache w key of None \<Rightarrow> JNull | Some v \<Rightarrow> v), emit (GetItem key) w)"

definition setItem :: "string \<Rightarrow> jsval \<Rightarrow> world \<Rightarrow> world" where
  "setItem key v w = emit (SetItem key v) (w\<lparr>cache := (cache w)(key \<mapsto> v)\<rparr>)"

section \<open>Invoking the renderer\<close>

text \<open>A promise is settled once: a later \<open>resolve\<close> or \<open>reject\<close> has no effect.\<close>

definition settle :: "'a promise \<Rightarrow> 'a promise \<Rightarrow> 'a promise" where
  "settle current new = (case current of Pending \<Rightarrow> new | _ \<Rightarrow> current)"

text \<open>
  The \<open>close\<close> handler of \<open>generateLocalImage\<close>, lines 145 to 195. Were the chunk
  combination to throw, the handler would end without settling the promise.
\<close>

definition imageOnClose ::
  "platform \<Rightarrow> (nat \<Rightarrow> byte) \<Rightarrow> OutputType \<Rightarrow> buffer list \<Rightarrow> string \<Rightarrow> int option \<Rightarrow> string promise"
where
  "imageOnClose pf mem type stdoutChunks stderr code =
     (case combineChunks mem stdoutChunks of
        None \<Rightarrow> Pending
      | Some combined \<Rightarrow>
          if code = Some 0 then
            if length combined = 0
            then Rejected (RenderError (orElse stderr ''No output from PlantUML''))
            else if type = PNG then Resolved (toString pf Base64 combined)
            else Resolved (toString pf Utf8 combined)
          else
            let errorMsg = orElse stderr (''PlantUML exited with code '' @ showCode code)
            in if 0 < length combined \<and> type = PNG
               then Resolved (toString pf Base64 combined)
               else Rejected (RenderError errorMsg))"

record image_run =
  img_stdoutChunks :: "buffer list"
  img_stderr :: string
  img_outcome :: "string promise"

fun imageEvent :: "platform \<Rightarrow> (nat \<Rightarrow> byte) \<Rightarrow> OutputType \<Rightarrow> image_run \<Rightarrow> proc_event \<Rightarrow> image_run" where
  "imageEvent pf mem type r (StdoutData d) = r\<lparr>img_stdoutChunks := img_stdoutChunks r @ [d]\<rparr>"
| "imageEvent pf mem type r (StderrData d) = r\<lparr>img_stderr := img_stderr r @ toString pf Utf8 d\<rparr>"
| "imageEvent pf mem type r (ErrorEvent e) = r\<lparr>img_outcome := settle (img_outcome r) (Rejected (LaunchError e))\<rparr>"
| "imageEvent pf mem type r (CloseEvent code) =
     r\<lparr>img_outcome := settle (img_outcome r)
                      (imageOnClose pf mem type (img_stdoutChunks r) (img_stderr r) code)\<rparr>"

text \<open>
  The promise \<open>generateLocalImage\<close> returns, as the events of the child arrive: the
  accumulators start empty, and the promise is what the handlers have made of it when
  the events end (\<open>Pending\<close> when none settled it).
\<close>

definition imagePromise ::
  "platform \<Rightarrow> (nat \<Rightarrow> byte) \<Rightarrow> OutputType \<Rightarrow> proc_event list \<Rightarrow> string promise"
where
  "imagePromise pf mem type events =
     img_outcome (foldl (imageEvent pf mem type)
                    \<lparr>img_stdoutChunks = [], img_stderr = [], img_outcome = Pending\<rparr> events)"

definition generateLocalImage ::
  "platform \<Rightarrow> config \<Rightarrow> string \<Rightarrow> OutputType \<Rightarrow> string \<Rightarrow> world \<Rightarrow> string promise \<times> world"
where
  "generateLocalImage pf cfg source type path w =
     (case resolveLocalJarCmd pf cfg of
        Inl e \<Rightarrow> (Rejected e, w)
      | Inr cmd \<Rightarrow>
          (case cmd @ [''-t'' @ outputTypeText pf type, ''-pipe''] of
             [] \<Rightarrow> (Rejected (LaunchError ''spawn''), w)
           | command # commandArgs \<Rightarrow>
               let w1 = emit (Spawn command commandArgs path) w;
                   w2 = emit (StdinWrite source) w1;
                   events = renderer cfg command commandArgs path source
               in (imagePromise pf (heap cfg) type events, w2)))"

text \<open>
  \<open>generateLocalMap\<close>, lines 67 to 113: standard output is accumulated as text, and the
  \<open>close\<close> handler resolves with it on exit code 0.
\<close>

definition mapOnClose :: "string \<Rightarrow> string \<Rightarrow> int option \<Rightarrow> string promise" where
  "mapOnClose stdout stderr code =
     (if code = Some 0 then Resolved stdout
      else
        let errorMsg = orElse stderr
              (orElse stdout (''PlantUML map generation exited with code '' @ showCode code))
        in Rejected (RenderError errorMsg))"

record map_run =
  map_stdout :: string
  map_stderr :: string
  map_outcome :: "string promise"

fun mapEvent :: "platform \<Rightarrow> map_run \<Rightarrow> proc_event \<Rightarrow> map_run" where
  "mapEvent pf r (StdoutData d) = r\<lparr>map_stdout := map_stdout r @ toString pf Binary d\<rparr>"
| "mapEvent pf r (StderrData d) = r\<lparr>map_stderr := map_stderr r @ toString pf Utf8 d\<rparr>"
| "mapEvent pf r (ErrorEvent e) = r\<lparr>map_outcome := settle (map_outcome r) (Rejected (LaunchError e))\<rparr>"
| "mapEvent pf r (CloseEvent code) =
     r\<lparr>map_outcome := settle (map_outcome r) (mapOnClose (map_stdout r) (map_stderr r) code)\<rparr>"

definition mapPromise :: "platform \<Rightarrow> proc_event list \<Rightarrow> string promise" where
  "mapPromise pf events =
     map_outcome (foldl (mapEvent pf)
                    \<lparr>map_stdout = [], map_stderr = [], map_outcome = Pending\<rparr> events)"

definition generateLocalMap ::
  "platform \<Rightarrow> config \<Rightarrow> string \<Rightarrow> string \<Rightarrow> world \<Rightarrow> string promise \<times> world"
where
  "generateLocalMap pf cfg source path w =
     (case resolveLocalJarCmd pf cfg of
        Inl e \<Rightarrow> (Rejected e, w)
      | Inr cmd \<Rightarrow>
          (case cmd @ [''-pipemap''] of
             [] \<Rightarrow> (Rejected (LaunchError ''spawn''), w)
           | command # commandArgs \<Rightarrow>
               let w1 = emit (Spawn command commandArgs path) w;
                   w2 = emit (StdinWrite source) w1;
                   events = renderer cfg command commandArgs path source
               in (mapPromise pf events, w2)))"

section \<open>The three processors\<close>

text \<open>
  Each processor is an \<open>async\<close> function: it ends \<open>Resolved ()\<close>, ends \<open>Rejected\<close> with
  the error of an awaited promise, or stays \<open>Pending\<close> when an awaited promise never
  settles. The world returned holds the effects performed so far.
\<close>

definition ascii ::
  "platform \<Rightarrow> config \<Rightarrow> string \<Rightarrow> element \<Rightarrow> ctx \<Rightarrow> world \<Rightarrow> unit promise \<times> world"
where
  "ascii pf cfg source el c w =
     (let encodedDiagram = plantuml_encode pf source;
          (item, w1) = getItem (''ascii-'' @ encodedDiagram) w
      in if truthy item then
           let w2 = emit (InsertAscii el item) w1;
               w3 = setItem (''ts-'' @ encodedDiagram) (JNum (dateNow cfg)) w2
           in (Resolved (), w3)
         else
           (case generateLocalImage pf cfg source ASCII (getPath cfg c) w1 of
              (Pending, w2) \<Rightarrow> (Pending, w2)
            | (Rejected e, w2) \<Rightarrow> (Rejected e, w2)
            | (Resolved image', w2) \<Rightarrow>
                let w3 = emit (InsertAscii el (JStr image')) w2;
                    w4 = setItem (''ascii-'' @ encodedDiagram) (JStr image') w3;
                    w5 = setItem (''ts-'' @ encodedDiagram) (JNum (dateNow cfg)) w4
                in (Resolved (), w5)))"

definition png ::
  "platform \<Rightarrow> config \<Rightarrow> string \<Rightarrow> element \<Rightarrow> ctx \<Rightarrow> world \<Rightarrow> unit promise \<times> world"
where
  "png pf cfg source el c w =
     (let encodedDiagram = plantuml_encode pf source;
          (item, w1) = getItem (''png-'' @ encodedDiagram) w
      in if truthy item then
           let (map', w2) = getItem (''map-'' @ encodedDiagram) w1;
               w3 = emit (InsertImageWithMap el item map' encodedDiagram) w2;
               w4 = setItem (''ts-'' @ encodedDiagram) (JNum (dateNow cfg)) w3
           in (Resolved (), w4)
         else
           let path = getPath cfg c
           in (case generateLocalImage pf cfg source PNG path w1 of
                 (Pending, w2) \<Rightarrow> (Pending, w2)
               | (Rejected e, w2) \<Rightarrow> (Rejected e, w2)
               | (Resolved image', w2) \<Rightarrow>
                   (case generateLocalMap pf cfg source path w2 of
                      (Pending, w3) \<Rightarrow> (Pending, w3)
                    | (Rejected e, w3) \<Rightarrow> (Rejected e, w3)
                    | (Resolved map', w3) \<Rightarrow>
                        let w4 = setItem (''png-'' @ encodedDiagram) (JStr image') w3;
                            w5 = setItem (''map-'' @ encodedDiagram) (JStr map') w4;
                            w6 = setItem (''ts-'' @ encodedDiagram) (JNum (dateNow cfg)) w5;
                            w7 = emit (InsertImageWithMap el (JStr image') (JStr map')
                                         encodedDiagram) w6
                        in (Resolved (), w7))))"

definition svg ::
  "platform \<Rightarrow> config \<Rightarrow> string \<Rightarrow> element \<Rightarrow> ctx \<Rightarrow> world \<Rightarrow> unit promise \<times> world"
where
  "svg pf cfg source el c w =
     (let encodedDiagram = plantuml_encode pf source;
          (item, w1) = getItem (''svg-'' @ encodedDiagram) w
      in if truthy item then
           let w2 = emit (InsertSvg el item) w1;
               w3 = setItem (''ts-'' @ encodedDiagram) (JNum (dateNow cfg)) w2
           in (Resolved (), w3)
         else
           (case generateLocalImage pf cfg source SVG (getPath cfg c) w1 of
              (Pending, w2) \<Rightarrow> (Pending, w2)
            | (Rejected e, w2) \<Rightarrow> (Rejected e, w2)
            | (Resolved image', w2) \<Rightarrow>
                let w3 = setItem (''svg-'' @ encodedDiagram) (JStr image') w2;
                    w4 = setItem (''ts-'' @ encodedDiagram) (JNum (dateNow cfg)) w3;
                    w5 = emit (InsertSvg el (JStr image')) w4
                in (Resolved (), w5)))"

section \<open>Vocabulary for the statements\<close>

text \<open>
  The plugin calls one of the three processors according to the output kind of the code
  block; \<open>processor\<close> is that choice. \<open>artifactPrefix\<close> collects the key prefixes of
  lines 19, 34 and 55.
\<close>

definition processor ::
  "platform \<Rightarrow> config \<Rightarrow> OutputType \<Rightarrow> string \<Rightarrow> element \<Rightarrow> ctx \<Rightarrow> world \<Rightarrow> unit promise \<times> world"
where
  "processor pf cfg kind =
     (case kind of ASCII \<Rightarrow> ascii pf cfg | PNG \<Rightarrow> png pf cfg | SVG \<Rightarrow> svg pf cfg)"

definition artifactPrefix :: "OutputType \<Rightarrow> string" where
  "artifactPrefix kind = (case kind of ASCII \<Rightarrow> ''ascii-'' | PNG \<Rightarrow> ''png-'' | SVG \<Rightarrow> ''svg-'')"

text \<open>What \<open>getItem\<close> answers for a key.\<close>

definition cached :: "world \<Rightarrow> string \<Rightarrow> jsval" where
  "cached w key = (case cache w key of None \<Rightarrow> JNull | Some v \<Rightarrow> v)"

fun isSpawn :: "effect \<Rightarrow> bool" where
  "isSpawn (Spawn command commandArgs cwd) = True"
| "isSpawn _ = False"

text \<open>Effects that write to the cache or insert into the presentation target.\<close>

fun writesOrPresents :: "effect \<Rightarrow> bool" where
  "writesOrPresents (GetItem key) = False"
| "writesOrPresents (Spawn command commandArgs cwd) = False"
| "writesOrPresents (StdinWrite source) = False"
| "writesOrPresents _ = True"


text \<open>Events that only carry data, and what the handlers accumulate from them.\<close>

fun isData :: "proc_event \<Rightarrow> bool" where
  "isData (StdoutData d) = True"
| "isData (StderrData d) = True"
| "isData _ = False"

fun stdoutOf :: "proc_event list \<Rightarrow> buffer list" where
  "stdoutOf [] = []"
| "stdoutOf (StdoutData d # evs) = d # stdoutOf evs"
| "stdoutOf (_ # evs) = stdoutOf evs"

fun stderrOf :: "platform \<Rightarrow> proc_event list \<Rightarrow> string" where
  "stderrOf pf [] = []"
| "stderrOf pf (StderrData d # evs) = toString pf Utf8 d @ stderrOf pf evs"
| "stderrOf pf (_ # evs) = stderrOf pf evs"

fun stdoutTextOf :: "platform \<Rightarrow> proc_event list \<Rightarrow> string" where
  "stdoutTextOf pf [] = []"
| "stdoutTextOf pf (StdoutData d # evs) = toString pf Binary d @ stdoutTextOf pf evs"
| "stdoutTextOf pf (_ # evs) = stdoutTextOf pf evs"

section \<open>A concrete platform for evaluation\<close>

text \<open>
  The theorems below hold for every platform. To evaluate the processors on concrete
  inputs, one platform is written out: POSIX paths after Node's \<open>path.posix\<close> (with the
  process working directory \<open>/\<close>), base64 after RFC 4648, and text decoding on 7-bit
  input (a byte above 127 decodes to \<open>?\<close>). For \<open>plantuml.encode\<close>, whose
  algorithm plays no part in any statement, two hexadecimal digits per code unit stand in.
\<close>

definition posix_isAbsolute :: "string \<Rightarrow> bool" where
  "posix_isAbsolute p = firstCharIs p CHR ''/''"

fun splitSlash :: "string \<Rightarrow> string list" where
  "splitSlash [] = [[]]"
| "splitSlash (c # cs) =
     (if c = CHR ''/'' then [] # splitSlash cs
      else (case splitSlash cs of [] \<Rightarrow> [[c]] | seg # segs \<Rightarrow> (c # seg) # segs))"

fun normalizeSegments :: "bool \<Rightarrow> string list \<Rightarrow> string list \<Rightarrow> string list" where
  "normalizeSegments allowAboveRoot stack [] = rev stack"
| "normalizeSegments allowAboveRoot stack (seg # segs) =
     (if seg = [] \<or> seg = ''.'' then normalizeSegments allowAboveRoot stack segs
      else if seg = ''..'' then
        (case stack of
           [] \<Rightarrow> normalizeSegments allowAboveRoot (if allowAboveRoot then [''..''] else []) segs
         | lastSeg # below \<Rightarrow>
             if lastSeg = ''..'' then normalizeSegments allowAboveRoot (''..'' # stack) segs
             else normalizeSegments allowAboveRoot below segs)
      else normalizeSegments allowAboveRoot (seg # stack) segs)"

fun joinSlash :: "string list \<Rightarrow> string" where
  "joinSlash [] = []"
| "joinSlash [seg] = seg"
| "joinSlash (seg # segs) = seg @ ''/'' @ joinSlash segs"

definition posix_resolve :: "string \<Rightarrow> string \<Rightarrow> string" where
  "posix_resolve a b =
     (let joined = (if posix_isAbsolute b then b
                    else if posix_isAbsolute a then a @ ''/'' @ b
                    else ''/'' @ a @ ''/'' @ b)
      in ''/'' @ joinSlash (normalizeSegments False [] (splitSlash joined)))"

definition base64Digit :: "nat \<Rightarrow> char" where
  "base64Digit i =
     (''ABCDEFGHIJKLMNOPQRSTUVWXYZabcdefghijklmnopqrstuvwxyz0123456789+/'') ! (i mod 64)"

fun base64 :: "nat list \<Rightarrow> string" where
  "base64 [] = []"
| "base64 [a] = [base64Digit (a div 4), base64Digit (a mod 4 * 16), CHR ''='', CHR ''='']"
| "base64 [a, b] =
     [base64Digit (a div 4), base64Digit (a mod 4 * 16 + b div 16),
      base64Digit (b mod 16 * 4), CHR ''='']"
| "base64 (a # b # c # rest) =
     [base64Digit (a div 4), base64Digit (a mod 4 * 16 + b div 16),
      base64Digit (b mod 16 * 4 + c div 64), base64Digit (c mod 64)] @ base64 rest"

definition decodeText :: "buffer \<Rightarrow> string" where
  "decodeText b = map (\<lambda>x. if unat x < 128 then char_of (unat x) else CHR ''?'') b"

definition sample_toString :: "encoding \<Rightarrow> buffer \<Rightarrow> string" where
  "sample_toString enc b = (case enc of Base64 \<Rightarrow> base64 (map unat b) | _ \<Rightarrow> decodeText b)"

definition hexDigit :: "nat \<Rightarrow> char" where
  "hexDigit i = ''0123456789abcdef'' ! (i mod 16)"

definition hexEncode :: "string \<Rightarrow> string" where
  "hexEncode s = concat (map (\<lambda>c. [hexDigit (of_char c div 16), hexDigit (of_char c mod 16)]) s)"

definition outputTypeValue :: "OutputType \<Rightarrow> string" where
  "outputTypeValue t = (case t of ASCII \<Rightarrow> ''txt'' | PNG \<Rightarrow> ''png'' | SVG \<Rightarrow> ''svg'')"

definition posix :: platform where
  "posix = \<lparr>isAbsolute = posix_isAbsolute, resolve = posix_resolve,
            plantuml_encode = hexEncode, toString = sample_toString,
            outputTypeText = outputTypeValue\<rparr>"

definition bytes :: "string \<Rightarrow> buffer" where
  "bytes s = map (\<lambda>c. of_char c) s"

text \<open>
  A sample renderer: asked for a map (\<open>-pipemap\<close>) it prints a map and exits 0; asked for
  an image it prints two chunks and exits 0.
\<close>

definition sample_renderer :: "string \<Rightarrow> string list \<Rightarrow> string \<Rightarrow> string \<Rightarrow> proc_event list" where
  "sample_renderer command commandArgs cwd stdin =
     (if ''-pipemap'' \<in> set commandArgs
      then [StdoutData (bytes ''<map/>''), CloseEvent (Some 0)]
      else [StdoutData (bytes ''A->''), StdoutData (bytes ''B''), CloseEvent (Some 0)])"


definition sample_config :: config where
  "sample_config = \<lparr>localJar = ''plantuml.jar'', dotPath = Some ''/opt/bin/dot'',
                     javaPath = ''java'', homedir = ''/home/u'', fullPath = ''/vault'',
                     getPath = (\<lambda>c. ''/vault/notes''), renderer = sample_renderer,
                     heap = (\<lambda>i. 0), dateNow = 1000\<rparr>"

definition empty_world :: world where
  "empty_world = \<lparr>cache = Map.empty, log = []\<rparr>"

text \<open>A configuration whose renderer emits a given list of events, whatever it is asked.\<close>

definition scripted_config :: "proc_event list \<Rightarrow> config" where
  "scripted_config events = sample_config\<lparr>renderer := (\<lambda>command commandArgs cwd stdin. events)\<rparr>"

definition ok_events :: "proc_event list" where
  "ok_events = [StdoutData (bytes ''A->''), StderrData (bytes ''warn''), StdoutData (bytes ''B'')]"

text \<open>A cache that holds a PNG artifact for the source \<open>A->B\<close> and no map for it.\<close>

definition png_only_world :: world where
  "png_only_world = \<lparr>cache = [''png-412d3e42'' \<mapsto> JStr ''QS0+Qg==''], log = []\<rparr>"

section \<open>The chunk combination is concatenation\<close>

lemma totalLength_foldl:
  "foldl (\<lambda>sum chunk. sum + length chunk) acc chunks = acc + length (concat chunks)"
  by (induction chunks arbitrary: acc) simp_all

lemma copyChunks_fills:
  "length combined = offset + length (concat chunks) \<Longrightarrow>
   copyChunks chunks combined offset = Some (take offset combined @ concat chunks)"
proof (induction chunks arbitrary: combined offset)
  case Nil
  then show ?case by simp
next
  case (Cons chunk rest)
  let ?c = "take offset combined @ chunk @ drop (offset + length chunk) combined"
  from Cons.prems have step: "Buffer_copy chunk combined offset = Some ?c"
    by (simp add: Buffer_copy_def)
  from Cons.prems have len: "length ?c = (offset + length chunk) + length (concat rest)"
    by simp
  have "take (offset + length chunk) ?c = take offset combined @ chunk"
    using Cons.prems by simp
  with Cons.IH [OF len] step show ?case by simp
qed

lemma combineChunks_Some_concat: "combineChunks mem chunks = Some (concat chunks)"
proof (cases chunks)
  case Nil
  then show ?thesis by (simp add: combineChunks_def Buffer_alloc_def)
next
  case (Cons c cs)
  show ?thesis
  proof (cases cs)
    case Nil
    with Cons show ?thesis by (simp add: combineChunks_def)
  next
    case (Cons d ds)
    have "length (Buffer_allocUnsafe mem (length (concat chunks))) = 0 + length (concat chunks)"
      by (simp add: Buffer_allocUnsafe_def)
    from copyChunks_fills [OF this]
    have "copyChunks chunks (Buffer_allocUnsafe mem (length (concat chunks))) 0
            = Some (concat chunks)"
      by simp
    moreover have "length chunks \<noteq> 0" "length chunks \<noteq> 1"
      using \<open>chunks = c # cs\<close> Cons by simp_all
    ultimately show ?thesis
      by (simp add: combineChunks_def totalLength_foldl Let_def)
  qed
qed

text \<open>
  C10. For every list of stdout chunks, and whatever the uninitialised memory holds, the
  three-case combination of \<open>generateLocalImage\<close> completes and yields exactly
  \<open>Buffer.concat\<close> of the chunks: all chunks, in arrival order.
\<close>

theorem combineChunks_is_concat:
  "combineChunks mem stdoutChunks = Some (Buffer_concat stdoutChunks)"
  by (simp add: combineChunks_Some_concat Buffer_concat_def)

section \<open>The promise of the image renderer\<close>

lemma settle_simps [simp]:
  "settle Pending p = p" "settle (Rejected e) p = Rejected e" "settle (Resolved a) p = Resolved a"
  by (simp_all add: settle_def)

lemma image_data_events:
  "list_all isData evs \<Longrightarrow>
   foldl (imageEvent pf mem type) r evs =
     r\<lparr>img_stdoutChunks := img_stdoutChunks r @ stdoutOf evs,
       img_stderr := img_stderr r @ stderrOf pf evs\<rparr>"
proof (induction evs arbitrary: r)
  case Nil
  then show ?case by simp
next
  case (Cons ev evs)
  then show ?case by (cases ev) simp_all
qed

lemma image_settled_stays:
  "img_outcome r \<noteq> Pending \<Longrightarrow>
   img_outcome (foldl (imageEvent pf mem type) r evs) = img_outcome r"
proof (induction evs arbitrary: r)
  case Nil
  then show ?case by simp
next
  case (Cons ev evs)
  have "img_outcome (imageEvent pf mem type r ev) = img_outcome r"
    using Cons.prems by (cases ev; cases "img_outcome r") simp_all
  with Cons show ?case by simp
qed

lemma imageOnClose_eq:
  "imageOnClose pf mem type chunks err code =
     (if code = Some 0 then
        if concat chunks = [] then Rejected (RenderError (orElse err ''No output from PlantUML''))
        else if type = PNG then Resolved (toString pf Base64 (concat chunks))
        else Resolved (toString pf Utf8 (concat chunks))
      else if concat chunks \<noteq> [] \<and> type = PNG then Resolved (toString pf Base64 (concat chunks))
      else Rejected (RenderError (orElse err (''PlantUML exited with code '' @ showCode code))))"
  by (simp add: imageOnClose_def combineChunks_Some_concat)

lemma imageOnClose_settles: "imageOnClose pf mem type chunks err code \<noteq> Pending"
  by (simp add: imageOnClose_eq)

lemma imagePromise_close:
  assumes "list_all isData evs"
  shows "imagePromise pf mem type (evs @ CloseEvent code # rest)
           = imageOnClose pf mem type (stdoutOf evs) (stderrOf pf evs) code"
proof -
  let ?r0 = "\<lparr>img_stdoutChunks = [], img_stderr = [], img_outcome = Pending\<rparr>"
  let ?r1 = "foldl (imageEvent pf mem type) ?r0 evs"
  let ?r2 = "imageEvent pf mem type ?r1 (CloseEvent code)"
  have r1: "?r1 = \<lparr>img_stdoutChunks = stdoutOf evs, img_stderr = stderrOf pf evs,
                    img_outcome = Pending\<rparr>"
    using image_data_events [OF assms, of pf mem type ?r0] by simp
  have r2: "img_outcome ?r2 = imageOnClose pf mem type (stdoutOf evs) (stderrOf pf evs) code"
    by (simp add: r1)
  then have "img_outcome ?r2 \<noteq> Pending" by (simp add: imageOnClose_settles)
  from image_settled_stays [OF this, of pf mem type rest] r2
  show ?thesis by (simp add: imagePromise_def)
qed

lemma generateLocalImage_spawned:
  assumes "resolveLocalJarCmd pf cfg = Inr (command # args)"
  shows "generateLocalImage pf cfg source type path w =
           (imagePromise pf (heap cfg) type
              (renderer cfg command (args @ [''-t'' @ outputTypeText pf type, ''-pipe'']) path source),
            emit (StdinWrite source)
              (emit (Spawn command (args @ [''-t'' @ outputTypeText pf type, ''-pipe'']) path) w))"
  using assms by (simp add: generateLocalImage_def Let_def)

lemma resolveLocalJarCmd_nonempty: "resolveLocalJarCmd pf cfg = Inr cmd \<Longrightarrow> \<exists>command args. cmd = command # args"
  by (auto simp: resolveLocalJarCmd_def Let_def split: if_splits)

lemma map_data_events:
  "list_all isData evs \<Longrightarrow>
   foldl (mapEvent pf) r evs =
     r\<lparr>map_stdout := map_stdout r @ stdoutTextOf pf evs,
       map_stderr := map_stderr r @ stderrOf pf evs\<rparr>"
proof (induction evs arbitrary: r)
  case Nil
  then show ?case by simp
next
  case (Cons ev evs)
  then show ?case by (cases ev) simp_all
qed

lemma map_settled_stays:
  "map_outcome r \<noteq> Pending \<Longrightarrow> map_outcome (foldl (mapEvent pf) r evs) = map_outcome r"
proof (induction evs arbitrary: r)
  case Nil
  then show ?case by simp
next
  case (Cons ev evs)
  have "map_outcome (mapEvent pf r ev) = map_outcome r"
    using Cons.prems by (cases ev; cases "map_outcome r") simp_all
  with Cons show ?case by simp
qed

lemma mapOnClose_settles: "mapOnClose out err code \<noteq> Pending"
  by (simp add: mapOnClose_def Let_def)

lemma mapPromise_close:
  assumes "list_all isData evs"
  shows "mapPromise pf (evs @ CloseEvent code # rest)
           = mapOnClose (stdoutTextOf pf evs) (stderrOf pf evs) code"
proof -
  let ?r0 = "\<lparr>map_stdout = [], map_stderr = [], map_outcome = Pending\<rparr>"
  let ?r1 = "foldl (mapEvent pf) ?r0 evs"
  let ?r2 = "mapEvent pf ?r1 (CloseEvent code)"
  have r1: "?r1 = \<lparr>map_stdout = stdoutTextOf pf evs, map_stderr = stderrOf pf evs,
                    map_outcome = Pending\<rparr>"
    using map_data_events [OF assms, of pf ?r0] by simp
  have r2: "map_outcome ?r2 = mapOnClose (stdoutTextOf pf evs) (stderrOf pf evs) code"
    by (simp add: r1)
  then have "map_outcome ?r2 \<noteq> Pending" by (simp add: mapOnClose_settles)
  from map_settled_stays [OF this, of pf rest] r2
  show ?thesis by (simp add: mapPromise_def)
qed

lemma generateLocalMap_spawned:
  assumes "resolveLocalJarCmd pf cfg = Inr (command # args)"
  shows "generateLocalMap pf cfg source path w =
           (mapPromise pf (renderer cfg command (args @ [''-pipemap'']) path source),
            emit (StdinWrite source) (emit (Spawn command (args @ [''-pipemap'']) path) w))"
  using assms by (simp add: generateLocalMap_def Let_def)

section \<open>Facts about the sample configurations\<close>

lemma scripted_cmd:
  "resolveLocalJarCmd posix (scripted_config events) =
     Inr (''java'' # [''-Djava.awt.headless=true'', ''-jar'', ''/vault/plantuml.jar'',
                     ''-charset'', ''utf-8'', ''-graphvizdot'', ''/opt/bin/dot''])"
proof -
  have "jarFullPath posix (scripted_config events) = jarFullPath posix sample_config"
    by (simp add: jarFullPath_def scripted_config_def sample_config_def Let_def)
  moreover have "jarFullPath posix sample_config = ''/vault/plantuml.jar''" by code_simp
  moreover have "plantumlArgs (scripted_config events) = plantumlArgs sample_config"
    by (simp add: plantumlArgs_def scripted_config_def sample_config_def)
  moreover have "plantumlArgs sample_config
     = [''-charset'', ''utf-8'', ''-graphvizdot'', ''/opt/bin/dot'']" by code_simp
  moreover have "endsWith ''/vault/plantuml.jar'' ''.jar''" by code_simp
  moreover have "javaPath (scripted_config events) = ''java''"
    by (simp add: scripted_config_def sample_config_def)
  ultimately show ?thesis by (simp add: resolveLocalJarCmd_def Let_def)
qed

lemma scripted_renderer: "renderer (scripted_config events) command args path source = events"
  by (simp add: scripted_config_def)

lemma ok_events_data: "list_all isData ok_events"
  by (simp add: ok_events_def)

lemma ok_events_stdout: "concat (stdoutOf ok_events) = bytes ''A->B''"
  by (simp add: ok_events_def bytes_def)

lemma sample_decodings:
  "toString posix Base64 (bytes ''A->B'') = ''QS0+Qg==''"
  "toString posix Utf8 (bytes ''A->B'') = ''A->B''"
  "bytes ''A->B'' \<noteq> []"
  by code_simp+

section \<open>The exit-code matrix\<close>

text \<open>
  C1. Take an invocation of \<open>generateLocalImage\<close> whose command resolves and whose child
  emits data events and then closes with exit code \<open>code\<close>; let \<open>combined\<close> be the
  concatenation of the stdout chunks received. Exit 0 with non-empty output resolves, with
  the base64 text of the bytes for PNG and their UTF-8 decoding otherwise; exit 0 with
  empty output rejects with a render error; a non-zero exit with output and kind PNG
  resolves with the base64 text; a non-zero exit with another kind rejects; a non-zero
  exit with empty output rejects.
\<close>

theorem exit_code_matrix:
  assumes "resolveLocalJarCmd pf cfg = Inr (command # args)"
    and "renderer cfg command (args @ [''-t'' @ outputTypeText pf type, ''-pipe'']) path source
           = evs @ CloseEvent code # rest"
    and "list_all isData evs"
  shows "let result = fst (generateLocalImage pf cfg source type path w);
             combined = concat (stdoutOf evs)
         in (code = Some 0 \<and> combined \<noteq> [] \<and> type = PNG \<longrightarrow>
               result = Resolved (toString pf Base64 combined))
          \<and> (code = Some 0 \<and> combined \<noteq> [] \<and> type \<noteq> PNG \<longrightarrow>
               result = Resolved (toString pf Utf8 combined))
          \<and> (code = Some 0 \<and> combined = [] \<longrightarrow> (\<exists>msg. result = Rejected (RenderError msg)))
          \<and> (code \<noteq> Some 0 \<and> combined \<noteq> [] \<and> type = PNG \<longrightarrow>
               result = Resolved (toString pf Base64 combined))
          \<and> (code \<noteq> Some 0 \<and> type \<noteq> PNG \<longrightarrow> (\<exists>msg. result = Rejected (RenderError msg)))
          \<and> (code \<noteq> Some 0 \<and> combined = [] \<longrightarrow> (\<exists>msg. result = Rejected (RenderError msg)))"
proof -
  have "fst (generateLocalImage pf cfg source type path w)
          = imagePromise pf (heap cfg) type (evs @ CloseEvent code # rest)"
    using generateLocalImage_spawned [OF assms(1), of source type path w] assms(2) by simp
  then show ?thesis
    by (simp add: imagePromise_close [OF assms(3)] imageOnClose_eq Let_def)
qed

theorem exit_code_matrix_witness:
  "fst (generateLocalImage posix (scripted_config (ok_events @ CloseEvent (Some 0) # [])) ''A->B'' PNG
         ''/vault/notes'' empty_world) = Resolved ''QS0+Qg==''
   \<and> fst (generateLocalImage posix (scripted_config (ok_events @ CloseEvent (Some 0) # [])) ''A->B'' SVG
         ''/vault/notes'' empty_world) = Resolved ''A->B''
   \<and> fst (generateLocalImage posix (scripted_config (ok_events @ CloseEvent (Some 1) # [])) ''A->B'' PNG
         ''/vault/notes'' empty_world) = Resolved ''QS0+Qg==''
   \<and> (\<exists>msg. fst (generateLocalImage posix (scripted_config (ok_events @ CloseEvent (Some 1) # []))
                ''A->B'' SVG ''/vault/notes'' empty_world) = Rejected (RenderError msg))
   \<and> (\<exists>msg. fst (generateLocalImage posix (scripted_config ([] @ CloseEvent (Some 0) # []))
                ''A->B'' PNG ''/vault/notes'' empty_world) = Rejected (RenderError msg))
   \<and> (\<exists>msg. fst (generateLocalImage posix (scripted_config ([] @ CloseEvent None # []))
                ''A->B'' PNG ''/vault/notes'' empty_world) = Rejected (RenderError msg))"
proof -
  have e: "list_all isData []" by simp
  note m = exit_code_matrix [where pf = posix and source = "''A->B''" and path = "''/vault/notes''"
      and w = empty_world and rest = "[]", OF scripted_cmd scripted_renderer]
  show ?thesis
    using m [where evs = ok_events and code = "Some 0" and type = PNG, OF ok_events_data]
      m [where evs = ok_events and code = "Some 0" and type = SVG, OF ok_events_data]
      m [where evs = ok_events and code = "Some 1" and type = PNG, OF ok_events_data]
      m [where evs = ok_events and code = "Some 1" and type = SVG, OF ok_events_data]
      m [where evs = "[]" and code = "Some 0" and type = PNG, OF e]
      m [where evs = "[]" and code = None and type = PNG, OF e]
    by (simp add: Let_def ok_events_stdout sample_decodings)
qed


lemma scripted_image:
  assumes "list_all isData evs"
  shows "fst (generateLocalImage posix (scripted_config (evs @ CloseEvent code # rest))
                source type path w)
           = imageOnClose posix (\<lambda>i. 0) type (stdoutOf evs) (stderrOf posix evs) code"
proof -
  have "heap (scripted_config (evs @ CloseEvent code # rest)) = (\<lambda>i. 0)"
    by (simp add: scripted_config_def sample_config_def)
  then show ?thesis
    using generateLocalImage_spawned [OF scripted_cmd, of "evs @ CloseEvent code # rest" source type path w]
    by (simp add: scripted_renderer imagePromise_close [OF assms])
qed

lemma sample_texts:
  "stderrOf posix ok_events = ''warn''"
  "stdoutTextOf posix ok_events = ''A->B''"
  "stdoutTextOf posix [StdoutData (bytes ''out'')] = ''out''"
  "stderrOf posix [StdoutData (bytes ''out'')] = []"
  "concat (stdoutOf [StdoutData (bytes ''out'')]) = bytes ''out''"
  "bytes ''out'' \<noteq> []"
  "toString posix Binary (bytes ''out'') = ''out''"
  "showCode (Some 1) = ''1''" "showCode (Some 2) = ''2''" "showCode None = ''null''"
  by code_simp+

lemma scripted_map:
  assumes "list_all isData evs"
  shows "fst (generateLocalMap posix (scripted_config (evs @ CloseEvent code # rest)) source path w)
           = mapOnClose (stdoutTextOf posix evs) (stderrOf posix evs) code"
  using generateLocalMap_spawned [OF scripted_cmd, of "evs @ CloseEvent code # rest" source path w]
  by (simp add: scripted_renderer mapPromise_close [OF assms])

section \<open>Diagnostics after a non-zero exit\<close>

text \<open>
  C5, as the claim states it, fails for \<open>generateLocalImage\<close>: with exit code 1, nothing
  on standard error and \<open>out\<close> on standard output, kind SVG, the rejection carries the
  message naming the exit code, not the accumulated output.
\<close>

theorem image_ignores_stdout_counterexample:
  "fst (generateLocalImage posix (scripted_config ([StdoutData (bytes ''out'')] @ CloseEvent (Some 1) # []))
          ''A->B'' SVG ''/vault/notes'' empty_world)
     = Rejected (RenderError ''PlantUML exited with code 1'')
   \<and> concat (stdoutOf [StdoutData (bytes ''out'')]) = bytes ''out''
   \<and> stderrOf posix [StdoutData (bytes ''out'')] = []
   \<and> toString posix Utf8 (bytes ''out'') = ''out''"
proof -
  have d: "list_all isData [StdoutData (bytes ''out'')]" by simp
  have "toString posix Utf8 (bytes ''out'') = ''out''" by code_simp
  then show ?thesis
    using scripted_image [OF d, where code = "Some 1" and rest = "[]" and type = SVG
        and source = "''A->B''" and path = "''/vault/notes''" and w = empty_world]
    by (simp add: imageOnClose_eq sample_texts orElse_def)
qed


text \<open>
  C5, amended. When the child exits non-zero, \<open>generateLocalMap\<close> rejects with the text of
  standard error when it is non-empty, otherwise with the accumulated standard output when
  that is non-empty, otherwise with a message naming the exit code. When the child exits
  non-zero and \<open>generateLocalImage\<close> fails, it rejects with the text of standard error
  when it is non-empty and otherwise with a message naming the exit code; the accumulated
  output is not used.
\<close>

theorem nonzero_exit_diagnostic:
  assumes "resolveLocalJarCmd pf cfg = Inr (command # args)"
    and "list_all isData evs" and "code \<noteq> Some 0"
  shows "(renderer cfg command (args @ [''-pipemap'']) path source = evs @ CloseEvent code # rest \<longrightarrow>
            fst (generateLocalMap pf cfg source path w) =
              Rejected (RenderError
                (if stderrOf pf evs \<noteq> [] then stderrOf pf evs
                 else if stdoutTextOf pf evs \<noteq> [] then stdoutTextOf pf evs
                 else ''PlantUML map generation exited with code '' @ showCode code)))
       \<and> (renderer cfg command (args @ [''-t'' @ outputTypeText pf type, ''-pipe'']) path source
             = evs @ CloseEvent code # rest
           \<and> (\<forall>a. fst (generateLocalImage pf cfg source type path w) \<noteq> Resolved a) \<longrightarrow>
            fst (generateLocalImage pf cfg source type path w) =
              Rejected (RenderError
                (if stderrOf pf evs \<noteq> [] then stderrOf pf evs
                 else ''PlantUML exited with code '' @ showCode code)))"
proof (intro conjI impI)
  assume "renderer cfg command (args @ [''-pipemap'']) path source = evs @ CloseEvent code # rest"
  then have "fst (generateLocalMap pf cfg source path w) = mapPromise pf (evs @ CloseEvent code # rest)"
    using generateLocalMap_spawned [OF assms(1), of source path w] by simp
  then show "fst (generateLocalMap pf cfg source path w) =
              Rejected (RenderError
                (if stderrOf pf evs \<noteq> [] then stderrOf pf evs
                 else if stdoutTextOf pf evs \<noteq> [] then stdoutTextOf pf evs
                 else ''PlantUML map generation exited with code '' @ showCode code))"
    using assms(3) by (simp add: mapPromise_close [OF assms(2)] mapOnClose_def orElse_def Let_def)
next
  assume a: "renderer cfg command (args @ [''-t'' @ outputTypeText pf type, ''-pipe'']) path source
             = evs @ CloseEvent code # rest
           \<and> (\<forall>a. fst (generateLocalImage pf cfg source type path w) \<noteq> Resolved a)"
  then have eq: "fst (generateLocalImage pf cfg source type path w)
          = imagePromise pf (heap cfg) type (evs @ CloseEvent code # rest)"
    using generateLocalImage_spawned [OF assms(1), of source type path w] by simp
  from a have "\<forall>a. fst (generateLocalImage pf cfg source type path w) \<noteq> Resolved a" by simp
  then show "fst (generateLocalImage pf cfg source type path w) =
              Rejected (RenderError
                (if stderrOf pf evs \<noteq> [] then stderrOf pf evs
                 else ''PlantUML exited with code '' @ showCode code))"
    using assms(3) unfolding eq
    by (simp add: imagePromise_close [OF assms(2)] imageOnClose_eq orElse_def Let_def
          split: if_splits)
qed


theorem nonzero_exit_diagnostic_witness:
  "fst (generateLocalMap posix (scripted_config (ok_events @ CloseEvent (Some 1) # []))
          ''A->B'' ''/vault/notes'' empty_world) = Rejected (RenderError ''warn'')
   \<and> fst (generateLocalMap posix (scripted_config ([StdoutData (bytes ''out'')] @ CloseEvent (Some 1) # []))
          ''A->B'' ''/vault/notes'' empty_world) = Rejected (RenderError ''out'')
   \<and> fst (generateLocalMap posix (scripted_config ([] @ CloseEvent (Some 2) # []))
          ''A->B'' ''/vault/notes'' empty_world)
        = Rejected (RenderError ''PlantUML map generation exited with code 2'')
   \<and> fst (generateLocalImage posix (scripted_config (ok_events @ CloseEvent (Some 1) # []))
          ''A->B'' SVG ''/vault/notes'' empty_world) = Rejected (RenderError ''warn'')
   \<and> fst (generateLocalImage posix (scripted_config ([] @ CloseEvent None # []))
          ''A->B'' PNG ''/vault/notes'' empty_world)
        = Rejected (RenderError ''PlantUML exited with code null'')"
proof -
  have d: "list_all isData [StdoutData (bytes ''out'')]" and e: "list_all isData []" by simp_all
  have n: "Some (1::int) \<noteq> Some 0" "Some (2::int) \<noteq> Some 0" "(None :: int option) \<noteq> Some 0"
    by simp_all
  have m1: "fst (generateLocalMap posix (scripted_config (ok_events @ CloseEvent (Some 1) # []))
          ''A->B'' ''/vault/notes'' empty_world) = Rejected (RenderError ''warn'')"
    using nonzero_exit_diagnostic [where pf = posix and source = "''A->B''"
        and cfg = "scripted_config (ok_events @ CloseEvent (Some 1) # [])"
        and path = "''/vault/notes''" and w = empty_world and rest = "[]"
        and evs = ok_events and code = "Some 1" and type = SVG,
        OF scripted_cmd ok_events_data n(1)]
    by (simp add: scripted_renderer sample_texts)
  have m2: "fst (generateLocalMap posix
          (scripted_config ([StdoutData (bytes ''out'')] @ CloseEvent (Some 1) # []))
          ''A->B'' ''/vault/notes'' empty_world) = Rejected (RenderError ''out'')"
    using nonzero_exit_diagnostic [where pf = posix and source = "''A->B''"
        and cfg = "scripted_config ([StdoutData (bytes ''out'')] @ CloseEvent (Some 1) # [])"
        and path = "''/vault/notes''" and w = empty_world and rest = "[]"
        and evs = "[StdoutData (bytes ''out'')]" and code = "Some 1" and type = SVG,
        OF scripted_cmd d n(1)]
    by (simp add: scripted_renderer sample_texts)
  have m3: "fst (generateLocalMap posix (scripted_config ([] @ CloseEvent (Some 2) # []))
          ''A->B'' ''/vault/notes'' empty_world)
        = Rejected (RenderError ''PlantUML map generation exited with code 2'')"
    using nonzero_exit_diagnostic [where pf = posix and source = "''A->B''"
        and cfg = "scripted_config ([] @ CloseEvent (Some 2) # [])"
        and path = "''/vault/notes''" and w = empty_world and rest = "[]"
        and evs = "[]" and code = "Some 2" and type = SVG, OF scripted_cmd e n(2)]
    by (simp add: scripted_renderer sample_texts)
  have f1: "\<forall>a. fst (generateLocalImage posix (scripted_config (ok_events @ CloseEvent (Some 1) # []))
          ''A->B'' SVG ''/vault/notes'' empty_world) \<noteq> Resolved a"
    by (simp add: scripted_image [OF ok_events_data] imageOnClose_eq)
  have i1: "fst (generateLocalImage posix (scripted_config (ok_events @ CloseEvent (Some 1) # []))
          ''A->B'' SVG ''/vault/notes'' empty_world) = Rejected (RenderError ''warn'')"
    using nonzero_exit_diagnostic [where pf = posix and source = "''A->B''"
        and cfg = "scripted_config (ok_events @ CloseEvent (Some 1) # [])"
        and path = "''/vault/notes''" and w = empty_world and rest = "[]"
        and evs = ok_events and code = "Some 1" and type = SVG,
        OF scripted_cmd ok_events_data n(1)] f1
    by (simp add: scripted_renderer sample_texts)
  have f2: "\<forall>a. fst (generateLocalImage posix (scripted_config ([] @ CloseEvent None # []))
          ''A->B'' PNG ''/vault/notes'' empty_world) \<noteq> Resolved a"
    using scripted_image [OF e, where code = None and rest = "[]" and type = PNG
        and source = "''A->B''" and path = "''/vault/notes''" and w = empty_world]
    by (simp add: imageOnClose_eq)
  have i2: "fst (generateLocalImage posix (scripted_config ([] @ CloseEvent None # []))
          ''A->B'' PNG ''/vault/notes'' empty_world)
        = Rejected (RenderError ''PlantUML exited with code null'')"
    using nonzero_exit_diagnostic [where pf = posix and source = "''A->B''"
        and cfg = "scripted_config ([] @ CloseEvent None # [])"
        and path = "''/vault/notes''" and w = empty_world and rest = "[]"
        and evs = "[]" and code = None and type = PNG, OF scripted_cmd e n(3)] f2
    by (simp add: scripted_renderer sample_texts)
  from m1 m2 m3 i1 i2 show ?thesis by blast
qed

section \<open>Resolving the executable path\<close>

text \<open>
  C6, as the claim states it, fails in its third case: a relative path is not resolved
  against the location of the document. With the vault at \<open>/vault\<close>, a document in
  \<open>/vault/notes\<close> and \<open>localJar = plantuml.jar\<close>, the resolved path is
  \<open>/vault/plantuml.jar\<close>, not \<open>/vault/notes/plantuml.jar\<close>.
\<close>

theorem jar_base_directory_counterexample:
  "\<not> firstCharIs (localJar sample_config) CHR ''~''
   \<and> \<not> isAbsolute posix (localJar sample_config)
   \<and> getPath sample_config ''notes/n.md'' = ''/vault/notes''
   \<and> jarFullPath posix sample_config = ''/vault/plantuml.jar''
   \<and> jarFullPath posix sample_config
        \<noteq> resolve posix (getPath sample_config ''notes/n.md'') (localJar sample_config)"
  by code_simp

text \<open>
  C6, amended. A configured path beginning with \<open>~\<close> has the marker replaced by the
  user's home directory; otherwise an absolute path is used unchanged and a relative path
  is resolved against \<open>getFullPath("")\<close>, the path of the vault, whatever document is
  rendered; if the resolved path is empty, \<open>resolveLocalJarCmd\<close> fails with the error
  \<open>Invalid local jar file\<close>, and so do both renderer invocations, before any process is
  spawned; if it is not empty, a command is produced that names the resolved path.
\<close>

theorem jarFullPath_cases:
  "(firstCharIs (localJar cfg) CHR ''~'' \<longrightarrow>
      jarFullPath pf cfg = homedir cfg @ drop 1 (localJar cfg))
   \<and> (\<not> firstCharIs (localJar cfg) CHR ''~'' \<and> isAbsolute pf (localJar cfg) \<longrightarrow>
      jarFullPath pf cfg = localJar cfg)
   \<and> (\<not> firstCharIs (localJar cfg) CHR ''~'' \<and> \<not> isAbsolute pf (localJar cfg) \<longrightarrow>
      jarFullPath pf cfg = resolve pf (fullPath cfg) (localJar cfg))
   \<and> (jarFullPath pf cfg = [] \<longrightarrow>
      resolveLocalJarCmd pf cfg = Inl (ConfigurationError ''Invalid local jar file'')
      \<and> generateLocalImage pf cfg source type path w
           = (Rejected (ConfigurationError ''Invalid local jar file''), w)
      \<and> generateLocalMap pf cfg source path w
           = (Rejected (ConfigurationError ''Invalid local jar file''), w))
   \<and> (jarFullPath pf cfg \<noteq> [] \<longrightarrow>
        (\<exists>cmd. resolveLocalJarCmd pf cfg = Inr cmd \<and> jarFullPath pf cfg \<in> set (take 4 cmd)))"
  by (simp add: jarFullPath_def resolveLocalJarCmd_def generateLocalImage_def
        generateLocalMap_def slice_def Let_def)

theorem jarFullPath_cases_witness:
  "jarFullPath posix (sample_config\<lparr>localJar := ''~/bin/plantuml.jar''\<rparr>) = ''/home/u/bin/plantuml.jar''
   \<and> jarFullPath posix (sample_config\<lparr>localJar := ''/opt/plantuml.jar''\<rparr>) = ''/opt/plantuml.jar''
   \<and> jarFullPath posix sample_config = ''/vault/plantuml.jar''
   \<and> resolveLocalJarCmd posix (sample_config\<lparr>localJar := ''~'', homedir := []\<rparr>)
        = Inl (ConfigurationError ''Invalid local jar file'')
   \<and> (\<exists>cmd. resolveLocalJarCmd posix sample_config = Inr cmd)"
proof -
  have a: "firstCharIs (localJar (sample_config\<lparr>localJar := ''~/bin/plantuml.jar''\<rparr>)) CHR ''~''"
    by code_simp
  have b: "\<not> firstCharIs (localJar (sample_config\<lparr>localJar := ''/opt/plantuml.jar''\<rparr>)) CHR ''~''
           \<and> isAbsolute posix (localJar (sample_config\<lparr>localJar := ''/opt/plantuml.jar''\<rparr>))"
    by code_simp
  have c: "\<not> firstCharIs (localJar sample_config) CHR ''~''
           \<and> \<not> isAbsolute posix (localJar sample_config)"
    by code_simp
  have c': "resolve posix (fullPath sample_config) (localJar sample_config) = ''/vault/plantuml.jar''"
    by code_simp
  have d: "jarFullPath posix (sample_config\<lparr>localJar := ''~'', homedir := []\<rparr>) = []"
    by code_simp
  have e: "jarFullPath posix sample_config \<noteq> []" by code_simp
  have 1: "jarFullPath posix (sample_config\<lparr>localJar := ''~/bin/plantuml.jar''\<rparr>)
             = ''/home/u/bin/plantuml.jar''"
    using jarFullPath_cases [where pf = posix and cfg = "sample_config\<lparr>localJar := ''~/bin/plantuml.jar''\<rparr>"] a
    by (simp add: sample_config_def)
  have 2: "jarFullPath posix (sample_config\<lparr>localJar := ''/opt/plantuml.jar''\<rparr>) = ''/opt/plantuml.jar''"
    using jarFullPath_cases [where pf = posix and cfg = "sample_config\<lparr>localJar := ''/opt/plantuml.jar''\<rparr>"] b
    by simp
  have 3: "jarFullPath posix sample_config = ''/vault/plantuml.jar''"
    using jarFullPath_cases [where pf = posix and cfg = sample_config] c c' by simp
  have 4: "resolveLocalJarCmd posix (sample_config\<lparr>localJar := ''~'', homedir := []\<rparr>)
        = Inl (ConfigurationError ''Invalid local jar file'')"
    using jarFullPath_cases [where pf = posix and cfg = "sample_config\<lparr>localJar := ''~'', homedir := []\<rparr>"] d
    by simp
  have 5: "\<exists>cmd. resolveLocalJarCmd posix sample_config = Inr cmd"
    using jarFullPath_cases [where pf = posix and cfg = sample_config] e by blast
  from 1 2 3 4 5 show ?thesis by blast
qed


section \<open>The shape of the command\<close>

text \<open>
  C7. Whenever the executable path resolves (is not empty): if it ends with \<open>.jar\<close>, the
  command is the configured Java path, then the headless flag, then \<open>-jar\<close>, then the
  jar path, in that order, followed by the renderer's own options, and this is what
  \<open>generateLocalImage\<close> spawns; if it does not end with \<open>.jar\<close>, the resolved path
  itself is the command and the headless flag is its first argument.
\<close>

theorem command_shape:
  assumes "jarFullPath pf cfg \<noteq> []"
  shows "(endsWith (jarFullPath pf cfg) ''.jar'' \<longrightarrow>
            resolveLocalJarCmd pf cfg =
              Inr ([javaPath cfg, ''-Djava.awt.headless=true'', ''-jar'', jarFullPath pf cfg]
                   @ plantumlArgs cfg)
            \<and> (\<forall>source type path w. \<exists>rest.
                  log (snd (generateLocalImage pf cfg source type path w))
                    = log w @ [Spawn (javaPath cfg)
                                 (''-Djava.awt.headless=true'' # ''-jar'' # jarFullPath pf cfg # rest)
                                 path,
                               StdinWrite source]))
       \<and> (\<not> endsWith (jarFullPath pf cfg) ''.jar'' \<longrightarrow>
            resolveLocalJarCmd pf cfg =
              Inr ([jarFullPath pf cfg, ''-Djava.awt.headless=true''] @ plantumlArgs cfg)
            \<and> (\<forall>source type path w. \<exists>rest.
                  log (snd (generateLocalImage pf cfg source type path w))
                    = log w @ [Spawn (jarFullPath pf cfg) (''-Djava.awt.headless=true'' # rest) path,
                               StdinWrite source]))"
  using assms
  by (simp add: resolveLocalJarCmd_def generateLocalImage_def emit_def Let_def)

theorem command_shape_witness:
  "resolveLocalJarCmd posix sample_config
     = Inr [''java'', ''-Djava.awt.headless=true'', ''-jar'', ''/vault/plantuml.jar'',
            ''-charset'', ''utf-8'', ''-graphvizdot'', ''/opt/bin/dot'']
   \<and> resolveLocalJarCmd posix (sample_config\<lparr>localJar := ''/usr/bin/plantuml''\<rparr>)
     = Inr [''/usr/bin/plantuml'', ''-Djava.awt.headless=true'',
            ''-charset'', ''utf-8'', ''-graphvizdot'', ''/opt/bin/dot'']"
proof -
  have a: "jarFullPath posix sample_config = ''/vault/plantuml.jar''"
    and a': "jarFullPath posix (sample_config\<lparr>localJar := ''/usr/bin/plantuml''\<rparr>) = ''/usr/bin/plantuml''"
    and p: "plantumlArgs sample_config = [''-charset'', ''utf-8'', ''-graphvizdot'', ''/opt/bin/dot'']"
    and p': "plantumlArgs (sample_config\<lparr>localJar := ''/usr/bin/plantuml''\<rparr>) = [''-charset'', ''utf-8'', ''-graphvizdot'', ''/opt/bin/dot'']"
    and j: "javaPath sample_config = ''java''"
    and e: "endsWith ''/vault/plantuml.jar'' ''.jar''"
    and e': "\<not> endsWith ''/usr/bin/plantuml'' ''.jar''"
    by code_simp+
  have n: "jarFullPath posix sample_config \<noteq> []"
    and n': "jarFullPath posix (sample_config\<lparr>localJar := ''/usr/bin/plantuml''\<rparr>) \<noteq> []"
    by (simp_all add: a a')
  show ?thesis
    using command_shape [OF n] command_shape [OF n']
    by (simp add: a a' p p' j e e')
qed

text \<open>
  C8. In every command that \<open>resolveLocalJarCmd\<close> produces, the part for the executable
  (four entries for a jar, two otherwise) is followed by \<open>-charset utf-8\<close>, and then by
  \<open>-graphvizdot\<close> with the configured path exactly when a dot path is configured, is
  not blank after trimming and is not \<open>dot\<close>; otherwise nothing follows.
\<close>

theorem graphvizdot_option:
  assumes "resolveLocalJarCmd pf cfg = Inr cmd"
  shows "\<exists>pre. length pre = (if endsWith (jarFullPath pf cfg) ''.jar'' then 4 else 2)
           \<and> (if \<exists>d. dotPath cfg = Some d \<and> trim d \<noteq> [] \<and> d \<noteq> ''dot''
              then cmd = pre @ [''-charset'', ''utf-8'', ''-graphvizdot'', the (dotPath cfg)]
              else cmd = pre @ [''-charset'', ''utf-8''])"
proof -
  have t: "trim [] = []" by (simp add: trim_def)
  show ?thesis
    using assms
    by (auto simp add: resolveLocalJarCmd_def plantumlArgs_def Let_def t
          split: if_splits option.splits)
qed


theorem graphvizdot_option_witness:
  "resolveLocalJarCmd posix sample_config
     = Inr ([''java'', ''-Djava.awt.headless=true'', ''-jar'', ''/vault/plantuml.jar'']
            @ [''-charset'', ''utf-8'', ''-graphvizdot'', ''/opt/bin/dot''])
   \<and> resolveLocalJarCmd posix (sample_config\<lparr>dotPath := Some ''dot''\<rparr>)
     = Inr ([''java'', ''-Djava.awt.headless=true'', ''-jar'', ''/vault/plantuml.jar'']
            @ [''-charset'', ''utf-8''])
   \<and> resolveLocalJarCmd posix (sample_config\<lparr>dotPath := Some ''  ''\<rparr>)
     = Inr ([''java'', ''-Djava.awt.headless=true'', ''-jar'', ''/vault/plantuml.jar'']
            @ [''-charset'', ''utf-8''])
   \<and> resolveLocalJarCmd posix (sample_config\<lparr>dotPath := None\<rparr>)
     = Inr ([''java'', ''-Djava.awt.headless=true'', ''-jar'', ''/vault/plantuml.jar'']
            @ [''-charset'', ''utf-8''])"
proof -
  have c1: "resolveLocalJarCmd posix sample_config
     = Inr [''java'', ''-Djava.awt.headless=true'', ''-jar'', ''/vault/plantuml.jar'',
            ''-charset'', ''utf-8'', ''-graphvizdot'', ''/opt/bin/dot'']"
    and c2: "resolveLocalJarCmd posix (sample_config\<lparr>dotPath := Some ''dot''\<rparr>)
     = Inr [''java'', ''-Djava.awt.headless=true'', ''-jar'', ''/vault/plantuml.jar'',
            ''-charset'', ''utf-8'']"
    and c3: "resolveLocalJarCmd posix (sample_config\<lparr>dotPath := Some ''  ''\<rparr>)
     = Inr [''java'', ''-Djava.awt.headless=true'', ''-jar'', ''/vault/plantuml.jar'',
            ''-charset'', ''utf-8'']"
    and c4: "resolveLocalJarCmd posix (sample_config\<lparr>dotPath := None\<rparr>)
     = Inr [''java'', ''-Djava.awt.headless=true'', ''-jar'', ''/vault/plantuml.jar'',
            ''-charset'', ''utf-8'']"
    by code_simp+
  from graphvizdot_option [OF c1] graphvizdot_option [OF c2] graphvizdot_option [OF c3]
    graphvizdot_option [OF c4] c1 c2 c3 c4
  show ?thesis by simp
qed


section \<open>Effects and results of the renderer invocations\<close>



lemma generateLocalImage_result:
  "fst (generateLocalImage pf cfg source type path w) = fst (generateLocalImage pf cfg source type path w0)"
  by (simp add: generateLocalImage_def Let_def split: sum.splits list.splits)





section \<open>Hit and miss paths of the processors\<close>


lemma ascii_miss:
  assumes "\<not> truthy (cached w (''ascii-'' @ plantuml_encode pf source))"
    and "generateLocalImage pf cfg source ASCII (getPath cfg c)
           (emit (GetItem (''ascii-'' @ plantuml_encode pf source)) w) = (r, w2)"
  shows "ascii pf cfg source el c w =
     (case r of
        Pending \<Rightarrow> (Pending, w2)
      | Rejected e \<Rightarrow> (Rejected e, w2)
      | Resolved a \<Rightarrow>
          (Resolved (),
           \<lparr>cache = (cache w2)(''ascii-'' @ plantuml_encode pf source \<mapsto> JStr a,
                               ''ts-'' @ plantuml_encode pf source \<mapsto> JNum (dateNow cfg)),
            log = log w2 @ [InsertAscii el (JStr a),
                            SetItem (''ascii-'' @ plantuml_encode pf source) (JStr a),
                            SetItem (''ts-'' @ plantuml_encode pf source) (JNum (dateNow cfg))]\<rparr>))"
  using assms
  by (simp add: ascii_def getItem_def setItem_def emit_def cached_def Let_def split: promise.splits)


lemma svg_miss:
  assumes "\<not> truthy (cached w (''svg-'' @ plantuml_encode pf source))"
    and "generateLocalImage pf cfg source SVG (getPath cfg c)
           (emit (GetItem (''svg-'' @ plantuml_encode pf source)) w) = (r, w2)"
  shows "svg pf cfg source el c w =
     (case r of
        Pending \<Rightarrow> (Pending, w2)
      | Rejected e \<Rightarrow> (Rejected e, w2)
      | Resolved a \<Rightarrow>
          (Resolved (),
           \<lparr>cache = (cache w2)(''svg-'' @ plantuml_encode pf source \<mapsto> JStr a,
                               ''ts-'' @ plantuml_encode pf source \<mapsto> JNum (dateNow cfg)),
            log = log w2 @ [SetItem (''svg-'' @ plantuml_encode pf source) (JStr a),
                            SetItem (''ts-'' @ plantuml_encode pf source) (JNum (dateNow cfg)),
                            InsertSvg el (JStr a)]\<rparr>))"
  using assms
  by (simp add: svg_def getItem_def setItem_def emit_def cached_def Let_def split: promise.splits)

lemma png_hit:
  assumes "truthy (cached w (''png-'' @ plantuml_encode pf source))"
  shows "png pf cfg source el c w =
     (Resolved (),
      \<lparr>cache = (cache w)(''ts-'' @ plantuml_encode pf source \<mapsto> JNum (dateNow cfg)),
       log = log w @ [GetItem (''png-'' @ plantuml_encode pf source),
                      GetItem (''map-'' @ plantuml_encode pf source),
                      InsertImageWithMap el (cached w (''png-'' @ plantuml_encode pf source))
                        (cached w (''map-'' @ plantuml_encode pf source))
                        (plantuml_encode pf source),
                      SetItem (''ts-'' @ plantuml_encode pf source) (JNum (dateNow cfg))]\<rparr>)"
  using assms
  by (simp add: png_def getItem_def setItem_def emit_def cached_def Let_def)

lemma png_miss:
  assumes "\<not> truthy (cached w (''png-'' @ plantuml_encode pf source))"
    and "generateLocalImage pf cfg source PNG (getPath cfg c)
           (emit (GetItem (''png-'' @ plantuml_encode pf source)) w) = (r, w2)"
    and "generateLocalMap pf cfg source (getPath cfg c) w2 = (rm, w3)"
  shows "png pf cfg source el c w =
     (case r of
        Pending \<Rightarrow> (Pending, w2)
      | Rejected e \<Rightarrow> (Rejected e, w2)
      | Resolved a \<Rightarrow>
          (case rm of
             Pending \<Rightarrow> (Pending, w3)
           | Rejected e \<Rightarrow> (Rejected e, w3)
           | Resolved m \<Rightarrow>
               (Resolved (),
                \<lparr>cache = (cache w3)(''png-'' @ plantuml_encode pf source \<mapsto> JStr a,
                                    ''map-'' @ plantuml_encode pf source \<mapsto> JStr m,
                                    ''ts-'' @ plantuml_encode pf source \<mapsto> JNum (dateNow cfg)),
                 log = log w3 @ [SetItem (''png-'' @ plantuml_encode pf source) (JStr a),
                                 SetItem (''map-'' @ plantuml_encode pf source) (JStr m),
                                 SetItem (''ts-'' @ plantuml_encode pf source) (JNum (dateNow cfg)),
                                 InsertImageWithMap el (JStr a) (JStr m)
                                   (plantuml_encode pf source)]\<rparr>)))"
  using assms
  by (simp add: png_def getItem_def setItem_def emit_def cached_def Let_def split: promise.splits)


section \<open>A failed render\<close>

lemma scripted_image_call:
  assumes "list_all isData evs"
  shows "generateLocalImage posix (scripted_config (evs @ CloseEvent code # rest)) source type path w
           = (imageOnClose posix (\<lambda>i. 0) type (stdoutOf evs) (stderrOf posix evs) code,
              emit (StdinWrite source)
                (emit (Spawn ''java''
                         ([''-Djava.awt.headless=true'', ''-jar'', ''/vault/plantuml.jar'',
                           ''-charset'', ''utf-8'', ''-graphvizdot'', ''/opt/bin/dot'']
                          @ [''-t'' @ outputTypeText posix type, ''-pipe'']) path) w))"
proof -
  have "heap (scripted_config (evs @ CloseEvent code # rest)) = (\<lambda>i. 0)"
    by (simp add: scripted_config_def sample_config_def)
  then show ?thesis
    using generateLocalImage_spawned [OF scripted_cmd, of "evs @ CloseEvent code # rest" source type path w]
    by (simp add: scripted_renderer imagePromise_close [OF assms])
qed

lemma scripted_map_call:
  assumes "list_all isData evs"
  shows "generateLocalMap posix (scripted_config (evs @ CloseEvent code # rest)) source path w
           = (mapOnClose (stdoutTextOf posix evs) (stderrOf posix evs) code,
              emit (StdinWrite source)
                (emit (Spawn ''java''
                         ([''-Djava.awt.headless=true'', ''-jar'', ''/vault/plantuml.jar'',
                           ''-charset'', ''utf-8'', ''-graphvizdot'', ''/opt/bin/dot'']
                          @ [''-pipemap'']) path) w))"
  using generateLocalMap_spawned [OF scripted_cmd, of "evs @ CloseEvent code # rest" source path w]
  by (simp add: scripted_renderer mapPromise_close [OF assms])

lemma empty_world_miss: "\<not> truthy (cached empty_world key)"
  by (simp add: cached_def empty_world_def)

lemma scripted_getPath: "getPath (scripted_config events) c = ''/vault/notes''"
  by (simp add: scripted_config_def sample_config_def)

lemma generateLocalMap_result:
  "fst (generateLocalMap pf cfg source path w) = fst (generateLocalMap pf cfg source path w0)"
  by (simp add: generateLocalMap_def Let_def split: sum.splits list.splits)

lemma generateLocalImage_one_spawn:
  assumes "generateLocalImage pf cfg source type path w = (r, w')"
  shows "cache w' = cache w
       \<and> (\<exists>new. log w' = log w @ new \<and> list_all (\<lambda>x. \<not> writesOrPresents x) new
                \<and> length (filter isSpawn new) \<le> 1
                \<and> ((\<exists>a. r = Resolved a) \<longrightarrow> length (filter isSpawn new) = 1))"
  using assms
  by (auto simp add: generateLocalImage_def emit_def Let_def split: sum.splits list.splits)

lemma generateLocalImage_resolved_cmd:
  assumes "fst (generateLocalImage pf cfg source type path w) = Resolved a"
  shows "\<exists>cmd. resolveLocalJarCmd pf cfg = Inr cmd"
  using assms by (cases "resolveLocalJarCmd pf cfg") (simp_all add: generateLocalImage_def)

lemma generateLocalMap_one_spawn:
  assumes "generateLocalMap pf cfg source path w = (r, w')"
    and "resolveLocalJarCmd pf cfg = Inr cmd"
  shows "cache w' = cache w
       \<and> (\<exists>new. log w' = log w @ new \<and> list_all (\<lambda>x. \<not> writesOrPresents x) new
                \<and> length (filter isSpawn new) = 1)"
  using assms
  by (auto simp add: generateLocalMap_def emit_def Let_def split: sum.splits list.splits)

lemma image_render_fails:
  assumes miss: "\<not> truthy (cached w (artifactPrefix kind @ plantuml_encode pf source))"
    and fails: "fst (generateLocalImage pf cfg source kind (getPath cfg c) w) = Rejected e"
  shows "\<exists>w' new. processor pf cfg kind source el c w = (Rejected e, w')
           \<and> cache w' = cache w
           \<and> log w' = log w @ new
           \<and> list_all (\<lambda>x. \<not> writesOrPresents x) new
           \<and> length (filter isSpawn new) \<le> 1"
proof -
  let ?k = "artifactPrefix kind @ plantuml_encode pf source"
  obtain r w2 where g: "generateLocalImage pf cfg source kind (getPath cfg c)
           (emit (GetItem ?k) w) = (r, w2)"
    by (cases "generateLocalImage pf cfg source kind (getPath cfg c) (emit (GetItem ?k) w)") blast
  have r: "r = Rejected e"
    using generateLocalImage_result [of pf cfg source kind "getPath cfg c" "emit (GetItem ?k) w" w]
      g fails by simp
  from generateLocalImage_one_spawn [OF g]
  obtain mid where mid: "cache w2 = cache w" "log w2 = log w @ GetItem ?k # mid"
    "list_all (\<lambda>x. \<not> writesOrPresents x) mid" "length (filter isSpawn mid) \<le> 1"
    by (auto simp add: emit_def)
  have p: "processor pf cfg kind source el c w = (Rejected e, w2)"
  proof (cases kind)
    case ASCII
    with miss g r ascii_miss [of w pf source cfg c r w2 el] show ?thesis
      by (simp add: processor_def artifactPrefix_def)
  next
    case SVG
    with miss g r svg_miss [of w pf source cfg c r w2 el] show ?thesis
      by (simp add: processor_def artifactPrefix_def)
  next
    case PNG
    obtain rm w3 where m: "generateLocalMap pf cfg source (getPath cfg c) w2 = (rm, w3)"
      by (cases "generateLocalMap pf cfg source (getPath cfg c) w2") blast
    from PNG miss g r png_miss [of w pf source cfg c r w2 rm w3 el] m show ?thesis
      by (simp add: processor_def artifactPrefix_def)
  qed
  show ?thesis
    by (rule exI [of _ w2], rule exI [of _ "GetItem ?k # mid"]) (use p mid in simp)
qed

lemma map_render_fails:
  assumes miss: "\<not> truthy (cached w (''png-'' @ plantuml_encode pf source))"
    and image_ok: "fst (generateLocalImage pf cfg source PNG (getPath cfg c) w) = Resolved a"
    and fails: "fst (generateLocalMap pf cfg source (getPath cfg c) w) = Rejected e"
  shows "\<exists>w' new. png pf cfg source el c w = (Rejected e, w')
           \<and> cache w' = cache w
           \<and> log w' = log w @ new
           \<and> list_all (\<lambda>x. \<not> writesOrPresents x) new
           \<and> length (filter isSpawn new) = 2"
proof -
  let ?k = "''png-'' @ plantuml_encode pf source"
  obtain r w2 where g: "generateLocalImage pf cfg source PNG (getPath cfg c)
           (emit (GetItem ?k) w) = (r, w2)"
    by (cases "generateLocalImage pf cfg source PNG (getPath cfg c) (emit (GetItem ?k) w)") blast
  have r: "r = Resolved a"
    using generateLocalImage_result [of pf cfg source PNG "getPath cfg c" "emit (GetItem ?k) w" w]
      g image_ok by simp
  obtain rm w3 where m: "generateLocalMap pf cfg source (getPath cfg c) w2 = (rm, w3)"
    by (cases "generateLocalMap pf cfg source (getPath cfg c) w2") blast
  have rm: "rm = Rejected e"
    using generateLocalMap_result [of pf cfg source "getPath cfg c" w2 w] m fails by simp
  from generateLocalImage_resolved_cmd [OF image_ok]
  obtain cmd where cmd: "resolveLocalJarCmd pf cfg = Inr cmd" by blast
  from generateLocalImage_one_spawn [OF g] r
  obtain mid where mid: "cache w2 = cache w" "log w2 = log w @ GetItem ?k # mid"
    "list_all (\<lambda>x. \<not> writesOrPresents x) mid" "length (filter isSpawn mid) = 1"
    by (auto simp add: emit_def)
  from generateLocalMap_one_spawn [OF m cmd]
  obtain mid' where mid': "cache w3 = cache w2" "log w3 = log w2 @ mid'"
    "list_all (\<lambda>x. \<not> writesOrPresents x) mid'" "length (filter isSpawn mid') = 1"
    by auto
  have p: "png pf cfg source el c w = (Rejected e, w3)"
    using png_miss [OF miss g m, of el] r rm by simp
  show ?thesis
    by (rule exI [of _ w3], rule exI [of _ "GetItem ?k # mid @ mid'"]) (use p mid mid' in simp)
qed

text \<open>
  C9. Take a render call of any kind that misses the cache. If the artifact render fails
  with error \<open>e\<close>, the call is rejected with \<open>e\<close>, the cache is what it was before
  the call, the effects of the call contain no cache write (artifact, map or timestamp)
  and no insertion into the presentation target, and at most one process has been
  spawned: the render is not tried again, and for PNG the map is not rendered. If the
  kind is PNG, the artifact render succeeds and the map render after it fails with
  \<open>e\<close>, the call is rejected with \<open>e\<close>, again with the cache unchanged and nothing
  written or inserted, and exactly two processes have been spawned, one per render step.
\<close>

theorem failed_render_leaves_no_trace:
  assumes "\<not> truthy (cached w (artifactPrefix kind @ plantuml_encode pf source))"
  shows "(fst (generateLocalImage pf cfg source kind (getPath cfg c) w) = Rejected e \<longrightarrow>
            (\<exists>w' new. processor pf cfg kind source el c w = (Rejected e, w')
               \<and> cache w' = cache w
               \<and> log w' = log w @ new
               \<and> list_all (\<lambda>x. \<not> writesOrPresents x) new
               \<and> length (filter isSpawn new) \<le> 1))
       \<and> (kind = PNG
           \<and> fst (generateLocalImage pf cfg source PNG (getPath cfg c) w) = Resolved a
           \<and> fst (generateLocalMap pf cfg source (getPath cfg c) w) = Rejected e \<longrightarrow>
            (\<exists>w' new. processor pf cfg kind source el c w = (Rejected e, w')
               \<and> cache w' = cache w
               \<and> log w' = log w @ new
               \<and> list_all (\<lambda>x. \<not> writesOrPresents x) new
               \<and> length (filter isSpawn new) = 2))"
proof (intro conjI impI)
  assume "fst (generateLocalImage pf cfg source kind (getPath cfg c) w) = Rejected e"
  from image_render_fails [OF assms this]
  show "\<exists>w' new. processor pf cfg kind source el c w = (Rejected e, w')
               \<and> cache w' = cache w
               \<and> log w' = log w @ new
               \<and> list_all (\<lambda>x. \<not> writesOrPresents x) new
               \<and> length (filter isSpawn new) \<le> 1" .
next
  assume a: "kind = PNG
           \<and> fst (generateLocalImage pf cfg source PNG (getPath cfg c) w) = Resolved a
           \<and> fst (generateLocalMap pf cfg source (getPath cfg c) w) = Rejected e"
  with assms have miss: "\<not> truthy (cached w (''png-'' @ plantuml_encode pf source))"
    by (simp add: artifactPrefix_def)
  from a map_render_fails [OF miss, of cfg c a e el]
  show "\<exists>w' new. processor pf cfg kind source el c w = (Rejected e, w')
               \<and> cache w' = cache w
               \<and> log w' = log w @ new
               \<and> list_all (\<lambda>x. \<not> writesOrPresents x) new
               \<and> length (filter isSpawn new) = 2"
    by (simp add: processor_def)
qed


theorem failed_render_leaves_no_trace_witness:
  "\<not> truthy (cached empty_world ''svg-412d3e42'')
   \<and> fst (generateLocalImage posix (scripted_config (ok_events @ CloseEvent (Some 1) # []))
            ''A->B'' SVG ''/vault/notes'' empty_world) = Rejected (RenderError ''warn'')
   \<and> fst (processor posix (scripted_config (ok_events @ CloseEvent (Some 1) # [])) SVG ''A->B'' 0
            ''n.md'' empty_world) = Rejected (RenderError ''warn'')
   \<and> cache (snd (processor posix (scripted_config (ok_events @ CloseEvent (Some 1) # [])) SVG
                    ''A->B'' 0 ''n.md'' empty_world)) = Map.empty
   \<and> length (filter isSpawn (log (snd (processor posix
                    (scripted_config (ok_events @ CloseEvent (Some 1) # [])) SVG
                    ''A->B'' 0 ''n.md'' empty_world)))) \<le> 1
   \<and> \<not> truthy (cached empty_world ''png-412d3e42'')
   \<and> fst (generateLocalImage posix (scripted_config (ok_events @ CloseEvent (Some 1) # []))
            ''A->B'' PNG ''/vault/notes'' empty_world) = Resolved ''QS0+Qg==''
   \<and> fst (generateLocalMap posix (scripted_config (ok_events @ CloseEvent (Some 1) # []))
            ''A->B'' ''/vault/notes'' empty_world) = Rejected (RenderError ''warn'')
   \<and> fst (processor posix (scripted_config (ok_events @ CloseEvent (Some 1) # [])) PNG ''A->B'' 0
            ''n.md'' empty_world) = Rejected (RenderError ''warn'')
   \<and> cache (snd (processor posix (scripted_config (ok_events @ CloseEvent (Some 1) # [])) PNG
                    ''A->B'' 0 ''n.md'' empty_world)) = Map.empty
   \<and> length (filter isSpawn (log (snd (processor posix
                    (scripted_config (ok_events @ CloseEvent (Some 1) # [])) PNG
                    ''A->B'' 0 ''n.md'' empty_world)))) = 2"
proof -
  let ?cfg = "scripted_config (ok_events @ CloseEvent (Some 1) # [])"
  have ks: "artifactPrefix SVG @ plantuml_encode posix ''A->B'' = ''svg-412d3e42''"
    and kp: "artifactPrefix PNG @ plantuml_encode posix ''A->B'' = ''png-412d3e42''"
    by code_simp+
  have ms: "\<not> truthy (cached empty_world (artifactPrefix SVG @ plantuml_encode posix ''A->B''))"
    and mp: "\<not> truthy (cached empty_world (artifactPrefix PNG @ plantuml_encode posix ''A->B''))"
    by (rule empty_world_miss)+
  have isv: "fst (generateLocalImage posix ?cfg ''A->B'' SVG ''/vault/notes'' empty_world)
              = Rejected (RenderError ''warn'')"
    by (simp add: scripted_image [OF ok_events_data] imageOnClose_eq sample_texts orElse_def)
  have ip: "fst (generateLocalImage posix ?cfg ''A->B'' PNG ''/vault/notes'' empty_world)
              = Resolved ''QS0+Qg==''"
    by (simp add: scripted_image [OF ok_events_data] imageOnClose_eq ok_events_stdout
          sample_decodings)
  have mf: "fst (generateLocalMap posix ?cfg ''A->B'' ''/vault/notes'' empty_world)
              = Rejected (RenderError ''warn'')"
    by (simp add: scripted_map [OF ok_events_data] mapOnClose_def sample_texts orElse_def)
  from failed_render_leaves_no_trace [OF ms, where cfg = ?cfg and c = "''n.md''" and el = 0
      and e = "RenderError ''warn''"] isv
  have s: "fst (processor posix ?cfg SVG ''A->B'' 0 ''n.md'' empty_world) = Rejected (RenderError ''warn'')
        \<and> cache (snd (processor posix ?cfg SVG ''A->B'' 0 ''n.md'' empty_world)) = Map.empty
        \<and> length (filter isSpawn (log (snd (processor posix ?cfg SVG ''A->B'' 0 ''n.md''
              empty_world)))) \<le> 1"
    by (auto simp add: scripted_getPath empty_world_def)
  from failed_render_leaves_no_trace [OF mp, where cfg = ?cfg and c = "''n.md''" and el = 0
      and e = "RenderError ''warn''" and a = "''QS0+Qg==''"] ip mf
  have p: "fst (processor posix ?cfg PNG ''A->B'' 0 ''n.md'' empty_world) = Rejected (RenderError ''warn'')
        \<and> cache (snd (processor posix ?cfg PNG ''A->B'' 0 ''n.md'' empty_world)) = Map.empty
        \<and> length (filter isSpawn (log (snd (processor posix ?cfg PNG ''A->B'' 0 ''n.md''
              empty_world)))) = 2"
    by (auto simp add: scripted_getPath empty_world_def)
  from s p isv ip mf empty_world_miss [of "''svg-412d3e42''"] empty_world_miss [of "''png-412d3e42''"]
  show ?thesis by blast
qed


section \<open>A hit after a miss\<close>












section \<open>A PNG hit and its map\<close>

lemma sample_key: "plantuml_encode posix ''A->B'' = ''412d3e42''"
  by code_simp

text \<open>
  C3, as the claim states it, fails in its second half: with a PNG artifact in the cache
  and no map, the call looks the map up, presents the artifact with \<open>null\<close> for the
  map, writes the timestamp and ends. It spawns no process: there is neither a re-render
  nor a render of the map alone.
\<close>

theorem png_hit_without_map_counterexample:
  "cache png_only_world ''png-412d3e42'' = Some (JStr ''QS0+Qg=='')
   \<and> cache png_only_world ''map-412d3e42'' = None
   \<and> png posix sample_config ''A->B'' 0 ''n.md'' png_only_world
       = (Resolved (),
          \<lparr>cache = [''png-412d3e42'' \<mapsto> JStr ''QS0+Qg=='', ''ts-412d3e42'' \<mapsto> JNum 1000],
           log = [GetItem ''png-412d3e42'', GetItem ''map-412d3e42'',
                  InsertImageWithMap 0 (JStr ''QS0+Qg=='') JNull ''412d3e42'',
                  SetItem ''ts-412d3e42'' (JNum 1000)]\<rparr>)"
proof -
  have t: "truthy (cached png_only_world (''png-'' @ plantuml_encode posix ''A->B''))"
    by (simp add: sample_key cached_def png_only_world_def)
  have n: "dateNow sample_config = 1000" by (simp add: sample_config_def)
  show ?thesis
    using png_hit [OF t, of sample_config 0 "''n.md''"]
    by (simp add: sample_key n cached_def png_only_world_def)
qed

text \<open>
  C3, amended. Every PNG render call that finds an artifact under \<open>png-\<close> + key also
  fetches the paired map under \<open>map-\<close> + key, presents the artifact together with
  whatever that fetch returned, writes the timestamp and ends; its effects are exactly
  these four, so nothing is rendered. When the map is absent, what is presented as the map
  is \<open>null\<close>.
\<close>

theorem png_hit_fetches_map:
  assumes "truthy (cached w (''png-'' @ plantuml_encode pf source))"
  shows "\<exists>w'. png pf cfg source el c w = (Resolved (), w')
           \<and> log w' = log w @ [GetItem (''png-'' @ plantuml_encode pf source),
                               GetItem (''map-'' @ plantuml_encode pf source),
                               InsertImageWithMap el (cached w (''png-'' @ plantuml_encode pf source))
                                 (cached w (''map-'' @ plantuml_encode pf source))
                                 (plantuml_encode pf source),
                               SetItem (''ts-'' @ plantuml_encode pf source) (JNum (dateNow cfg))]
           \<and> (cache w (''map-'' @ plantuml_encode pf source) = None \<longrightarrow>
                 cached w (''map-'' @ plantuml_encode pf source) = JNull)"
  using png_hit [OF assms, of cfg el c] by (simp add: cached_def)

theorem png_hit_fetches_map_witness:
  "truthy (cached png_only_world ''png-412d3e42'')
   \<and> cache png_only_world ''map-412d3e42'' = None
   \<and> fst (png posix sample_config ''A->B'' 0 ''n.md'' png_only_world) = Resolved ()
   \<and> log (snd (png posix sample_config ''A->B'' 0 ''n.md'' png_only_world))
       = [GetItem ''png-412d3e42'', GetItem ''map-412d3e42'',
          InsertImageWithMap 0 (JStr ''QS0+Qg=='') JNull ''412d3e42'',
          SetItem ''ts-412d3e42'' (JNum 1000)]"
proof -
  have t: "truthy (cached png_only_world (''png-'' @ plantuml_encode posix ''A->B''))"
    by (simp add: sample_key cached_def png_only_world_def)
  have n: "dateNow sample_config = 1000" by (simp add: sample_config_def)
  have m: "cache png_only_world ''map-412d3e42'' = None" by (simp add: png_only_world_def)
  have v: "cached png_only_world ''png-412d3e42'' = JStr ''QS0+Qg==''"
    by (simp add: cached_def png_only_world_def)
  from png_hit_fetches_map [OF t, of sample_config 0 "''n.md''"]
  obtain w' where "png posix sample_config ''A->B'' 0 ''n.md'' png_only_world = (Resolved (), w')"
    and "log w' = log png_only_world @ [GetItem ''png-412d3e42'', GetItem ''map-412d3e42'',
           InsertImageWithMap 0 (JStr ''QS0+Qg=='') JNull ''412d3e42'',
           SetItem ''ts-412d3e42'' (JNum 1000)]"
    using m by (auto simp add: sample_key n v)
  then show ?thesis
    using t m by (simp add: sample_key png_only_world_def)
qed

section \<open>The order of caching and presenting on a miss\<close>

text \<open>
  C4. The lemmas \<open>svg_miss\<close> and \<open>png_miss\<close> show the order the claim states for SVG
  and PNG: the artifact (and then the map) is written, then the timestamp, and the
  insertion comes last. The ASCII processor differs: evaluated on an empty cache with a
  renderer that prints \<open>A->B\<close> and exits 0, it inserts the artifact into the target
  first and writes it to the cache after that.
\<close>

theorem ascii_presents_before_caching:
  "ascii posix (scripted_config (ok_events @ CloseEvent (Some 0) # [])) ''A->B'' 0 ''n.md'' empty_world
     = (Resolved (),
        \<lparr>cache = [''ascii-412d3e42'' \<mapsto> JStr ''A->B'', ''ts-412d3e42'' \<mapsto> JNum 1000],
         log = [GetItem ''ascii-412d3e42'',
                Spawn ''java'' [''-Djava.awt.headless=true'', ''-jar'', ''/vault/plantuml.jar'',
                               ''-charset'', ''utf-8'', ''-graphvizdot'', ''/opt/bin/dot'',
                               ''-ttxt'', ''-pipe''] ''/vault/notes'',
                StdinWrite ''A->B'',
                InsertAscii 0 (JStr ''A->B''),
                SetItem ''ascii-412d3e42'' (JStr ''A->B''),
                SetItem ''ts-412d3e42'' (JNum 1000)]\<rparr>)"
proof -
  have t: "outputTypeText posix ASCII = ''txt''" by code_simp
  have n: "dateNow (scripted_config (ok_events @ CloseEvent (Some 0) # [])) = 1000"
    by (simp add: scripted_config_def sample_config_def)
  note g = scripted_image_call [OF ok_events_data, where code = "Some 0" and rest = "[]"
      and type = ASCII and source = "''A->B''" and path = "''/vault/notes''"]
  have i: "imageOnClose posix (\<lambda>i. 0) ASCII (stdoutOf ok_events) (stderrOf posix ok_events) (Some 0)
            = Resolved ''A->B''"
    by (simp add: imageOnClose_eq ok_events_stdout sample_decodings)
  show ?thesis
    using ascii_miss [OF empty_world_miss, where cfg = "scripted_config (ok_events @ CloseEvent (Some 0) # [])"
        and c = "''n.md''" and el = 0, unfolded scripted_getPath, OF g]
    by (simp add: i sample_key t n emit_def empty_world_def)
qed


end
